theory Spec2Isabelle
  imports Main "HOL-Library.Word"
begin

section \<open>The character-device module \<open>wy_module.c\<close>\<close>

text \<open>
  A shallow embedding of \<open>src/wy_module.c\<close>. The module's static variables are a record
  that every entry point takes and returns. Calls into the kernel are values of the
  datatype \<open>kcall\<close>; an entry point returns the list of the calls it made, in the order it
  made them. What the kernel answers (the major number, the class and device pointers)
  is an argument of \<open>wy_module_init\<close>. User memory is a partial map from addresses to
  bytes: an address outside its domain faults in \<open>get_user\<close> and \<open>put_user\<close>. The
  \<open>inode\<close>, \<open>file\<close> and \<open>offset\<close> arguments of the file operations are never read by the
  module and are not arguments of the model.
\<close>

subsection \<open>C types and kernel constants\<close>

type_synonym byte = "8 word"
type_synonym addr = nat
type_synonym user_mem = "addr \<Rightarrow> byte option"

text \<open>Error numbers of \<open>errno-base.h\<close> and the bound of \<open>err.h\<close>.\<close>

definition EFAULT :: int where
  "EFAULT = 14"

definition EBUSY :: int where
  "EBUSY = 16"

definition MAX_ERRNO :: int where
  "MAX_ERRNO = 4095"

text \<open>
  A kernel pointer is the signed value of its bits (a \<open>long\<close>). \<open>IS_ERR\<close> holds of the
  top \<open>MAX_ERRNO\<close> addresses, which read as \<open>-MAX_ERRNO .. -1\<close>; \<open>PTR_ERR\<close> is the cast.
\<close>

definition IS_ERR :: "int \<Rightarrow> bool" where
  "IS_ERR p = (- MAX_ERRNO \<le> p \<and> p < 0)"

definition PTR_ERR :: "int \<Rightarrow> int" where
  "PTR_ERR p = p"

text \<open>
  \<open>wy_module_init\<close> returns \<open>int\<close>: the \<open>long\<close> of \<open>PTR_ERR\<close> is cut to 32 bits, two's
  complement.
\<close>

definition long_to_int :: "int \<Rightarrow> int" where
  "long_to_int x = (x + 2 ^ 31) mod 2 ^ 32 - 2 ^ 31"

text \<open>\<open>MKDEV(ma, mi)\<close> is \<open>(ma << 20) | mi\<close>; the module only uses it with \<open>mi = 0\<close>.\<close>

definition MKDEV :: "int \<Rightarrow> int \<Rightarrow> int" where
  "MKDEV ma mi = ma * 2 ^ 20 + mi"

definition CLASS_NAME :: string where
  "CLASS_NAME = ''chardrv''"

definition DEVICE_NAME :: string where
  "DEVICE_NAME = ''wy_module''"

datatype loglevel = KERN_ALERT | KERN_INFO

text \<open>
  The kernel calls the module makes. A call that returns something the module reads
  carries the returned value last. \<open>THIS_MODULE\<close> and \<open>&fops\<close> are fixed and left out.
\<close>

datatype kcall =
    Register_chrdev int string int
  | Unregister_chrdev int string
  | Class_create string int
  | Class_unregister int
  | Class_destroy int
  | Device_create int int string int
  | Device_destroy int int
  | Try_module_get
  | Module_put
  | Printk loglevel string "int list"

subsection \<open>The parameter structure and its layout\<close>

text \<open>
  \<open>params_t\<close> is \<open>{uint32_t cmd; uint32_t* vaddr; uint32_t len;}\<close>. Its size depends on
  the width of a pointer on the target the module is compiled for: 12 bytes with 4-byte
  pointers, and 24 bytes with 8-byte pointers (4 bytes of padding after \<open>cmd\<close>, 4 after
  \<open>len\<close>). The target is a parameter of the model.
\<close>

datatype data_model = ILP32 | LP64

datatype byte_order = LittleEndian | BigEndian

record target =
  model :: data_model
  order :: byte_order

fun sizeof_ptr :: "data_model \<Rightarrow> nat" where
  "sizeof_ptr ILP32 = 4"
| "sizeof_ptr LP64 = 8"

definition align_up :: "nat \<Rightarrow> nat \<Rightarrow> nat" where
  "align_up n a = ((n + a - 1) div a) * a"

definition offsetof_cmd :: "data_model \<Rightarrow> nat" where
  "offsetof_cmd dm = 0"

definition offsetof_vaddr :: "data_model \<Rightarrow> nat" where
  "offsetof_vaddr dm = align_up (offsetof_cmd dm + 4) (sizeof_ptr dm)"

definition offsetof_len :: "data_model \<Rightarrow> nat" where
  "offsetof_len dm = align_up (offsetof_vaddr dm + sizeof_ptr dm) 4"

definition sizeof_params_t :: "target \<Rightarrow> nat" where
  "sizeof_params_t tg =
     align_up (offsetof_len (model tg) + 4) (max 4 (sizeof_ptr (model tg)))"

text \<open>
  The fields of a \<open>params_t\<close> object read from its bytes. An unsigned integer of several
  bytes is read in the target's byte order.
\<close>

definition load_uint :: "byte_order \<Rightarrow> byte list \<Rightarrow> nat" where
  "load_uint bo bs =
     foldl (\<lambda>acc b. acc * 256 + unat b) 0
       (case bo of BigEndian \<Rightarrow> bs | LittleEndian \<Rightarrow> rev bs)"

definition field_bytes :: "byte list \<Rightarrow> nat \<Rightarrow> nat \<Rightarrow> byte list" where
  "field_bytes mem off n = take n (drop off mem)"

record params_t =
  cmd :: "32 word"
  vaddr :: nat
  len_field :: "32 word"

definition params_cmd :: "target \<Rightarrow> byte list \<Rightarrow> 32 word" where
  "params_cmd tg mem =
     of_nat (load_uint (order tg) (field_bytes mem (offsetof_cmd (model tg)) 4))"

definition params_fields :: "target \<Rightarrow> byte list \<Rightarrow> params_t" where
  "params_fields tg mem =
     \<lparr> cmd = params_cmd tg mem,
       vaddr = load_uint (order tg)
                 (field_bytes mem (offsetof_vaddr (model tg)) (sizeof_ptr (model tg))),
       len_field = of_nat (load_uint (order tg)
                     (field_bytes mem (offsetof_len (model tg)) 4)) \<rparr>"

subsection \<open>Static variables\<close>

text \<open>
  \<open>params\<close> is the object representation of the static \<open>params_t\<close>: the module reads and
  writes it one \<open>char\<close> at a time through \<open>(char*)&params\<close>. The three \<open>int\<close>-valued statics
  are HOL integers: \<open>wy_module_open_count\<close> is only ever incremented from 0 and
  decremented from a non-zero value, so no run from the initial state comes near the
  bounds of a C \<open>int\<close>.
\<close>

record statics =
  wy_module_open_count :: int
  wy_module_major_num :: int
  params :: "byte list"
  wy_module_class :: int
  wy_module_device :: int

text \<open>C initialises statics to zero: the count explicitly, the others implicitly.\<close>

definition initial :: "target \<Rightarrow> statics" where
  "initial tg =
     \<lparr> wy_module_open_count = 0,
       wy_module_major_num = 0,
       params = replicate (sizeof_params_t tg) 0,
       wy_module_class = 0,
       wy_module_device = 0 \<rparr>"

definition params_ok :: "target \<Rightarrow> statics \<Rightarrow> bool" where
  "params_ok tg s = (length (params s) = sizeof_params_t tg)"

subsection \<open>Open and release\<close>

definition wy_module_open :: "statics \<Rightarrow> int \<times> statics \<times> kcall list" where
  "wy_module_open s =
     (if wy_module_open_count s \<noteq> 0 then (- EBUSY, s, [])
      else (0, s\<lparr>wy_module_open_count := wy_module_open_count s + 1\<rparr>, [Try_module_get]))"

definition wy_module_release :: "statics \<Rightarrow> int \<times> statics \<times> kcall list" where
  "wy_module_release s =
     (let s1 = (if wy_module_open_count s \<noteq> 0
                then s\<lparr>wy_module_open_count := wy_module_open_count s - 1\<rparr>
                else s)
      in (0, s1, [Module_put]))"

subsection \<open>The copy primitives of \<open>uaccess.h\<close>\<close>

text \<open>
  \<open>get_user(x, ptr)\<close> returns 0 and sets \<open>x\<close> to the byte at \<open>ptr\<close>, or returns \<open>-EFAULT\<close> and
  sets \<open>x\<close> to 0. \<open>put_user(x, ptr)\<close> returns 0 and stores \<open>x\<close> at \<open>ptr\<close>, or returns
  \<open>-EFAULT\<close> and stores nothing. The module drops both return values.
\<close>

definition get_user :: "user_mem \<Rightarrow> addr \<Rightarrow> int \<times> byte" where
  "get_user um p = (case um p of Some b \<Rightarrow> (0, b) | None \<Rightarrow> (- EFAULT, 0))"

definition put_user :: "byte \<Rightarrow> user_mem \<Rightarrow> addr \<Rightarrow> int \<times> user_mem" where
  "put_user x um p = (case um p of Some b \<Rightarrow> (0, um(p \<mapsto> x)) | None \<Rightarrow> (- EFAULT, um))"

text \<open>What a caller finds in its buffer, and whether all of the buffer can be accessed.\<close>

definition user_bytes :: "user_mem \<Rightarrow> addr \<Rightarrow> nat \<Rightarrow> byte option list" where
  "user_bytes um a n = map (\<lambda>i. um (a + i)) [0..<n]"

definition accessible :: "user_mem \<Rightarrow> addr \<Rightarrow> nat \<Rightarrow> bool" where
  "accessible um a n = list_all (\<lambda>i. um (a + i) \<noteq> None) [0..<n]"

subsection \<open>Write\<close>

text \<open>
  The \<open>while\<close> loop of \<open>wy_module_write\<close>. \<open>paramPtr\<close> is the offset of the C pointer from
  \<open>(char*)&params\<close>, \<open>buffer\<close> the user address. The loop runs only with
  \<open>len = sizeof(params_t)\<close>, so \<open>paramPtr\<close> stays inside the object when \<open>mem\<close> has that
  many bytes (\<open>params_ok\<close>). \<open>bytes_written\<close> is an \<open>int\<close> that counts up from 0 to at most
  24 and is compared with the \<open>size_t\<close> \<open>len\<close>: both are natural numbers here.
\<close>

function write_loop ::
    "user_mem \<Rightarrow> nat \<Rightarrow> byte list \<Rightarrow> addr \<Rightarrow> nat \<Rightarrow> nat \<Rightarrow> byte list \<times> nat" where
  "write_loop um len mem buffer paramPtr bytes_written =
     (if bytes_written < len
      then write_loop um len (mem[paramPtr := snd (get_user um buffer)])
             (buffer + 1) (paramPtr + 1) (bytes_written + 1)
      else (mem, bytes_written))"
  by pat_completeness auto
termination
  by (relation "measure (\<lambda>(um, len, mem, buffer, paramPtr, bytes_written). len - bytes_written)")
    auto

text \<open>The \<open>switch\<close> on \<open>params.cmd\<close> has the \<open>default\<close> label only.\<close>

definition write_switch :: "32 word \<Rightarrow> kcall list" where
  "write_switch c =
     (case c of _ \<Rightarrow>
        [Printk KERN_INFO (''wy_module write default operation'' @ [CHR 0x0A]) []])"

definition wy_module_write ::
    "target \<Rightarrow> statics \<Rightarrow> user_mem \<Rightarrow> addr \<Rightarrow> nat \<Rightarrow> int \<times> statics \<times> kcall list" where
  "wy_module_write tg s um buffer len =
     (if len \<noteq> sizeof_params_t tg then (0, s, [])
      else
        let (mem, bytes_written) = write_loop um len (params s) buffer 0 0;
            s1 = s\<lparr>params := mem\<rparr>
        in (int bytes_written, s1, write_switch (params_cmd tg (params s1))))"

subsection \<open>Read\<close>

function read_loop ::
    "byte list \<Rightarrow> nat \<Rightarrow> user_mem \<Rightarrow> addr \<Rightarrow> nat \<Rightarrow> nat \<Rightarrow> user_mem \<times> nat" where
  "read_loop mem len um buffer paramPtr bytes_read =
     (if bytes_read < len
      then read_loop mem len (snd (put_user (mem ! paramPtr) um buffer))
             (buffer + 1) (paramPtr + 1) (bytes_read + 1)
      else (um, bytes_read))"
  by pat_completeness auto
termination
  by (relation "measure (\<lambda>(mem, len, um, buffer, paramPtr, bytes_read). len - bytes_read)")
    auto

definition wy_module_read ::
    "target \<Rightarrow> statics \<Rightarrow> user_mem \<Rightarrow> addr \<Rightarrow> nat \<Rightarrow> int \<times> statics \<times> user_mem" where
  "wy_module_read tg s um buffer len =
     (if len \<noteq> sizeof_params_t tg then (0, s, um)
      else
        let (um1, bytes_read) = read_loop (params s) len um buffer 0 0
        in (int bytes_read, s, um1))"

subsection \<open>Loading and unloading\<close>

text \<open>What the kernel returns to the three calls of \<open>wy_module_init\<close> that return a value.\<close>

record kernel_answers =
  register_chrdev_ret :: int
  class_create_ret :: int
  device_create_ret :: int

definition wy_module_init ::
    "kernel_answers \<Rightarrow> statics \<Rightarrow> int \<times> statics \<times> kcall list" where
  "wy_module_init k s =
     (let s1 = s\<lparr>wy_module_major_num := register_chrdev_ret k\<rparr>;
          t1 = [Register_chrdev 0 ''wy_module'' (register_chrdev_ret k)]
      in if wy_module_major_num s1 < 0
         then (wy_module_major_num s1, s1,
               t1 @ [Printk KERN_ALERT (''Could not register device: %d'' @ [CHR 0x0A])
                       [wy_module_major_num s1]])
         else
           let s2 = s1\<lparr>wy_module_class := class_create_ret k\<rparr>;
               t2 = t1 @
                 [Printk KERN_INFO
                    (''wy_module module loaded successfully. Major number = %d'' @ [CHR 0x0A])
                    [wy_module_major_num s1],
                  Class_create CLASS_NAME (class_create_ret k)]
           in if IS_ERR (wy_module_class s2)
              then (long_to_int (PTR_ERR (wy_module_class s2)), s2,
                    t2 @ [Unregister_chrdev (wy_module_major_num s2) DEVICE_NAME,
                          Printk KERN_ALERT
                            (''Failed to register device class'' @ [CHR 0x0A]) []])
              else
                let s3 = s2\<lparr>wy_module_device := device_create_ret k\<rparr>;
                    t3 = t2 @
                      [Printk KERN_INFO
                         (''wy_module: device class registered correctly'' @ [CHR 0x0A]) [],
                       Device_create (wy_module_class s2)
                         (MKDEV (wy_module_major_num s2) 0) DEVICE_NAME
                         (device_create_ret k)]
                in if IS_ERR (wy_module_device s3)
                   then (long_to_int (PTR_ERR (wy_module_device s3)), s3,
                         t3 @ [Class_destroy (wy_module_class s3),
                               Unregister_chrdev (wy_module_major_num s3) DEVICE_NAME,
                               Printk KERN_ALERT
                                 (''wy_module: Failed to create the device'' @ [CHR 0x0A])
                                 []])
                   else (0, s3,
                         t3 @ [Printk KERN_INFO
                                 (''wy_module: device class created correctly'' @ [CHR 0x0A])
                                 []]))"

definition wy_module_exit :: "statics \<Rightarrow> statics \<times> kcall list" where
  "wy_module_exit s =
     (s, [Device_destroy (wy_module_class s) (MKDEV (wy_module_major_num s) 0),
          Class_unregister (wy_module_class s),
          Class_destroy (wy_module_class s),
          Unregister_chrdev (wy_module_major_num s) DEVICE_NAME,
          Printk KERN_INFO (''Exiting wy_module'' @ [CHR 0x0A]) []])"

subsection \<open>The kernel's resources\<close>

text \<open>
  The calls that take or give back a resource of the kernel's registries, without the
  log and the module reference count.
\<close>

fun is_registry_call :: "kcall \<Rightarrow> bool" where
  "is_registry_call (Printk l f a) = False"
| "is_registry_call Try_module_get = False"
| "is_registry_call Module_put = False"
| "is_registry_call c = True"

definition registry_calls :: "kcall list \<Rightarrow> kcall list" where
  "registry_calls tr = filter is_registry_call tr"

text \<open>
  The contract of the kernel's driver core, as far as the module relies on it.
  \<open>register_chrdev(0, ...)\<close> returns the major number it allocated, or a negative error;
  with a major number given it returns 0 or a negative error. \<open>class_create\<close> and
  \<open>device_create\<close> return the object or an error pointer. \<open>class_destroy(cls)\<close> returns
  at once for a null or error pointer and is \<open>class_unregister(cls)\<close> otherwise: each of
  the two gives the class back.
\<close>

datatype resource = Chrdev int | Class int | Device int int

fun acquired :: "kcall \<Rightarrow> resource list" where
  "acquired (Register_chrdev major name ret) =
     (if ret < 0 then [] else [Chrdev (if major = 0 then ret else major)])"
| "acquired (Class_create name ret) = (if ret = 0 \<or> IS_ERR ret then [] else [Class ret])"
| "acquired (Device_create cls devt name ret) =
     (if ret = 0 \<or> IS_ERR ret then [] else [Device cls devt])"
| "acquired c = []"

fun released :: "kcall \<Rightarrow> resource list" where
  "released (Unregister_chrdev major name) = [Chrdev major]"
| "released (Class_unregister cls) = [Class cls]"
| "released (Class_destroy cls) = (if cls = 0 \<or> IS_ERR cls then [] else [Class cls])"
| "released (Device_destroy cls devt) = [Device cls devt]"
| "released c = []"

definition times_acquired :: "resource \<Rightarrow> kcall list \<Rightarrow> nat" where
  "times_acquired r tr = count_list (concat (map acquired tr)) r"

definition times_released :: "resource \<Rightarrow> kcall list \<Rightarrow> nat" where
  "times_released r tr = count_list (concat (map released tr)) r"

definition held :: "resource \<Rightarrow> kcall list \<Rightarrow> int" where
  "held r tr = int (times_acquired r tr) - int (times_released r tr)"

subsection \<open>Sequences of file operations\<close>

datatype file_op = Open | Release | Read addr nat | Write addr nat

fun step :: "target \<Rightarrow> statics \<times> user_mem \<Rightarrow> file_op \<Rightarrow> statics \<times> user_mem" where
  "step tg (s, um) Open = (fst (snd (wy_module_open s)), um)"
| "step tg (s, um) Release = (fst (snd (wy_module_release s)), um)"
| "step tg (s, um) (Read buffer len) =
     (case wy_module_read tg s um buffer len of (r, s1, um1) \<Rightarrow> (s1, um1))"
| "step tg (s, um) (Write buffer len) =
     (fst (snd (wy_module_write tg s um buffer len)), um)"

definition run :: "target \<Rightarrow> statics \<times> user_mem \<Rightarrow> file_op list \<Rightarrow> statics \<times> user_mem" where
  "run tg = foldl (step tg)"

subsection \<open>A concrete configuration\<close>

text \<open>
  A 32-bit little-endian target; the record \<open>{cmd = 7, vaddr = 0x1000, len = 64}\<close> as its
  12 bytes; a user address space with that record at address 8192 and a second buffer of
  12 bytes at address 12288; a module that is loaded and open.
\<close>

definition example_target :: target where
  "example_target = \<lparr>model = ILP32, order = LittleEndian\<rparr>"

definition example_bytes :: "byte list" where
  "example_bytes = [7, 0, 0, 0, 0, 16, 0, 0, 64, 0, 0, 0]"

definition example_user :: user_mem where
  "example_user a =
     (if 8192 \<le> a \<and> a < 8204 then Some (example_bytes ! (a - 8192))
      else if 12288 \<le> a \<and> a < 12300 then Some 0
      else None)"

definition example_statics :: statics where
  "example_statics =
     \<lparr> wy_module_open_count = 0,
       wy_module_major_num = 240,
       params = replicate 12 0,
       wy_module_class = 65536,
       wy_module_device = 131072 \<rparr>"

definition example_held :: statics where
  "example_held = example_statics\<lparr>wy_module_open_count := 1\<rparr>"

text \<open>
  Answers of the kernel: every call succeeds; \<open>class_create\<close> fails with \<open>-ENOMEM\<close>;
  \<open>device_create\<close> fails with \<open>-ENODEV\<close>.
\<close>

definition example_answers :: kernel_answers where
  "example_answers =
     \<lparr>register_chrdev_ret = 240, class_create_ret = 65536, device_create_ret = 131072\<rparr>"

definition example_class_fails :: kernel_answers where
  "example_class_fails = example_answers\<lparr>class_create_ret := - 12\<rparr>"

definition example_device_fails :: kernel_answers where
  "example_device_fails = example_answers\<lparr>device_create_ret := - 19\<rparr>"

section \<open>Properties\<close>

subsection \<open>Layout and the two copy loops\<close>

lemma sizeof_params_t_cases:
  "sizeof_params_t tg = (case model tg of ILP32 \<Rightarrow> 12 | LP64 \<Rightarrow> 24)"
  by (cases "model tg")
     (simp_all add: sizeof_params_t_def offsetof_len_def offsetof_vaddr_def offsetof_cmd_def
        align_up_def)

declare write_loop.simps [simp del]
declare read_loop.simps [simp del]

lemma write_loop_count:
  "bytes_written \<le> len \<Longrightarrow>
   snd (write_loop um len mem buffer paramPtr bytes_written) = len"
proof (induction um len mem buffer paramPtr bytes_written rule: write_loop.induct)
  case (1 um len mem buffer paramPtr bytes_written)
  show ?case
  proof (cases "bytes_written < len")
    case True
    with 1 show ?thesis by (subst write_loop.simps) simp
  next
    case False
    with 1 show ?thesis by (subst write_loop.simps) simp
  qed
qed

lemma write_loop_length:
  "length (fst (write_loop um len mem buffer paramPtr bytes_written)) = length mem"
proof (induction um len mem buffer paramPtr bytes_written rule: write_loop.induct)
  case (1 um len mem buffer paramPtr bytes_written)
  show ?case
  proof (cases "bytes_written < len")
    case True
    with 1 show ?thesis by (subst write_loop.simps) simp
  next
    case False
    then show ?thesis by (subst write_loop.simps) simp
  qed
qed

lemma write_loop_nth:
  "i < length mem \<Longrightarrow>
   fst (write_loop um len mem buffer paramPtr bytes_written) ! i =
     (if paramPtr \<le> i \<and> i < paramPtr + (len - bytes_written)
      then snd (get_user um (buffer + (i - paramPtr))) else mem ! i)"
proof (induction um len mem buffer paramPtr bytes_written rule: write_loop.induct)
  case (1 um len mem buffer paramPtr bytes_written)
  show ?case
  proof (cases "bytes_written < len")
    case True
    have "fst (write_loop um len mem buffer paramPtr bytes_written) ! i =
          fst (write_loop um len (mem[paramPtr := snd (get_user um buffer)])
                 (buffer + 1) (paramPtr + 1) (bytes_written + 1)) ! i"
      using True by (subst write_loop.simps) simp
    also have "\<dots> =
          (if paramPtr + 1 \<le> i \<and> i < paramPtr + 1 + (len - (bytes_written + 1))
           then snd (get_user um (buffer + 1 + (i - (paramPtr + 1))))
           else mem[paramPtr := snd (get_user um buffer)] ! i)"
      using 1 True by simp
    also have "\<dots> =
          (if paramPtr \<le> i \<and> i < paramPtr + (len - bytes_written)
           then snd (get_user um (buffer + (i - paramPtr))) else mem ! i)"
      using True "1.prems" by (cases "i = paramPtr") (auto simp: Suc_diff_Suc)
    finally show ?thesis .
  next
    case False
    then show ?thesis by (subst write_loop.simps) auto
  qed
qed

lemma read_loop_count:
  "bytes_read \<le> len \<Longrightarrow> snd (read_loop mem len um buffer paramPtr bytes_read) = len"
proof (induction mem len um buffer paramPtr bytes_read rule: read_loop.induct)
  case (1 mem len um buffer paramPtr bytes_read)
  show ?case
  proof (cases "bytes_read < len")
    case True
    with 1 show ?thesis by (subst read_loop.simps) simp
  next
    case False
    with 1 show ?thesis by (subst read_loop.simps) simp
  qed
qed

lemma put_user_at:
  "snd (put_user x um p) a = (if a = p \<and> um p \<noteq> None then Some x else um a)"
  by (simp add: put_user_def split: option.splits)

lemma read_loop_at:
  "fst (read_loop mem len um buffer paramPtr bytes_read) a =
     (if buffer \<le> a \<and> a < buffer + (len - bytes_read) \<and> um a \<noteq> None
      then Some (mem ! (paramPtr + (a - buffer))) else um a)"
proof (induction mem len um buffer paramPtr bytes_read rule: read_loop.induct)
  case (1 mem len um buffer paramPtr bytes_read)
  show ?case
  proof (cases "bytes_read < len")
    case True
    have "fst (read_loop mem len um buffer paramPtr bytes_read) a =
          fst (read_loop mem len (snd (put_user (mem ! paramPtr) um buffer))
                 (buffer + 1) (paramPtr + 1) (bytes_read + 1)) a"
      using True by (subst read_loop.simps) simp
    also have "\<dots> =
          (if buffer + 1 \<le> a \<and> a < buffer + 1 + (len - (bytes_read + 1)) \<and>
              snd (put_user (mem ! paramPtr) um buffer) a \<noteq> None
           then Some (mem ! (paramPtr + 1 + (a - (buffer + 1))))
           else snd (put_user (mem ! paramPtr) um buffer) a)"
      using 1 True by simp
    also have "\<dots> =
          (if buffer \<le> a \<and> a < buffer + (len - bytes_read) \<and> um a \<noteq> None
           then Some (mem ! (paramPtr + (a - buffer))) else um a)"
      using True by (cases "a = buffer") (auto simp: put_user_at Suc_diff_Suc)
    finally show ?thesis .
  next
    case False
    then show ?thesis by (subst read_loop.simps) auto
  qed
qed


lemma accessible_iff: "accessible um a n \<longleftrightarrow> (\<forall>i<n. um (a + i) \<noteq> None)"
  by (auto simp: accessible_def list_all_iff)

lemma get_user_accessible: "um p \<noteq> None \<Longrightarrow> Some (snd (get_user um p)) = um p"
  by (auto simp: get_user_def split: option.splits)

lemma write_loop_whole:
  assumes "length mem = len"
  shows "write_loop um len mem buffer 0 0 =
           (map (\<lambda>i. snd (get_user um (buffer + i))) [0..<len], len)"
proof -
  have "fst (write_loop um len mem buffer 0 0) =
          map (\<lambda>i. snd (get_user um (buffer + i))) [0..<len]"
    using assms by (intro nth_equalityI) (simp_all add: write_loop_length write_loop_nth)
  moreover have "snd (write_loop um len mem buffer 0 0) = len"
    by (simp add: write_loop_count)
  ultimately show ?thesis by (simp add: prod_eq_iff)
qed

lemma write_result:
  assumes "len = sizeof_params_t tg" and "params_ok tg s"
  shows "wy_module_write tg s um buffer len =
           (int len, s\<lparr>params := map (\<lambda>i. snd (get_user um (buffer + i))) [0..<len]\<rparr>,
            [Printk KERN_INFO (''wy_module write default operation'' @ [CHR 0x0A]) []])"
  using assms
  by (simp add: wy_module_write_def params_ok_def write_loop_whole write_switch_def)

lemma write_return:
  assumes "len = sizeof_params_t tg"
  shows "fst (wy_module_write tg s um buffer len) = int len"
    and "snd (snd (wy_module_write tg s um buffer len)) =
           [Printk KERN_INFO (''wy_module write default operation'' @ [CHR 0x0A]) []]"
  using assms
  by (simp_all add: wy_module_write_def write_switch_def split_beta write_loop_count)

lemma read_result:
  assumes "len = sizeof_params_t tg"
  shows "wy_module_read tg s um buffer len =
           (int len, s, fst (read_loop (params s) len um buffer 0 0))"
  using assms by (simp add: wy_module_read_def split_beta read_loop_count)

lemma read_bytes:
  assumes "accessible um buffer len"
  shows "user_bytes (fst (read_loop mem len um buffer 0 0)) buffer len =
           map (\<lambda>i. Some (mem ! i)) [0..<len]"
  using assms by (simp add: user_bytes_def read_loop_at accessible_iff)

lemma read_loop_accessible:
  "accessible (fst (read_loop mem len um buffer paramPtr bytes_read)) a n = accessible um a n"
  by (auto simp: accessible_iff read_loop_at)

lemma user_bytes_get_user:
  assumes "accessible um buffer len"
  shows "map Some (map (\<lambda>i. snd (get_user um (buffer + i))) [0..<len]) = user_bytes um buffer len"
  using assms by (simp add: user_bytes_def accessible_iff get_user_accessible)


subsection \<open>Open and release\<close>

text \<open>
  C1. Open is exclusive. With a count of 0, \<open>wy_module_open\<close> returns 0 and sets the
  count to 1, and a second open right after it returns \<open>-EBUSY\<close>. With a count of 1 it
  returns \<open>-EBUSY\<close>, changes no static variable and calls nothing; after a release, open
  returns 0 again and the count is back at 1.
\<close>

theorem open_exclusive:
  "(wy_module_open_count s = 0 \<longrightarrow>
      wy_module_open s = (0, s\<lparr>wy_module_open_count := 1\<rparr>, [Try_module_get]) \<and>
      fst (wy_module_open (fst (snd (wy_module_open s)))) = - EBUSY)
   \<and> (wy_module_open_count s = 1 \<longrightarrow>
      wy_module_open s = (- EBUSY, s, []) \<and>
      wy_module_open (fst (snd (wy_module_release s))) = (0, s, [Try_module_get]))"
  by (simp add: wy_module_open_def wy_module_release_def)

theorem open_exclusive_witness:
  "wy_module_open example_statics = (0, example_held, [Try_module_get])
   \<and> wy_module_open example_held = (- 16, example_held, [])
   \<and> wy_module_open (fst (snd (wy_module_release example_held))) =
       (0, example_held, [Try_module_get])"
  using open_exclusive [of example_statics] open_exclusive [of example_held]
  by (simp add: example_held_def example_statics_def EBUSY_def)

text \<open>
  C4. Release is total and tolerant. \<open>wy_module_release\<close> returns 0 in every state. A
  count of 1 becomes 0; with a count of 0 no static variable changes. A second release
  returns 0 as well, and a count that is not negative is not negative after one release
  or after two. (Every release calls \<open>module_put\<close>, whatever the count.)
\<close>

theorem release_total:
  "fst (wy_module_release s) = 0
   \<and> (wy_module_open_count s = 1 \<longrightarrow>
        fst (snd (wy_module_release s)) = s\<lparr>wy_module_open_count := 0\<rparr>)
   \<and> (wy_module_open_count s = 0 \<longrightarrow> fst (snd (wy_module_release s)) = s)
   \<and> fst (wy_module_release (fst (snd (wy_module_release s)))) = 0
   \<and> (0 \<le> wy_module_open_count s \<longrightarrow>
        0 \<le> wy_module_open_count (fst (snd (wy_module_release s))) \<and>
        0 \<le> wy_module_open_count
              (fst (snd (wy_module_release (fst (snd (wy_module_release s)))))))"
  by (simp add: wy_module_release_def Let_def)

theorem release_total_witness:
  "fst (snd (wy_module_release example_held)) = example_statics
   \<and> fst (snd (wy_module_release example_statics)) = example_statics
   \<and> fst (wy_module_release (fst (snd (wy_module_release example_held)))) = 0
   \<and> wy_module_open_count
        (fst (snd (wy_module_release (fst (snd (wy_module_release example_held)))))) = 0"
  using release_total [of example_held] release_total [of example_statics]
  by (simp add: example_held_def example_statics_def)

subsection \<open>The size guard\<close>

text \<open>
  C2. A write or a read whose length is not \<open>sizeof(params_t)\<close> returns 0, makes no
  kernel call, and leaves every static variable (the stored record among them) and the
  user's memory as they were: no byte is copied in either direction.
\<close>

theorem size_guard:
  "len \<noteq> sizeof_params_t tg \<Longrightarrow>
     wy_module_write tg s um buffer len = (0, s, []) \<and>
     wy_module_read tg s um buffer len = (0, s, um)"
  by (simp add: wy_module_write_def wy_module_read_def)

theorem size_guard_witness:
  "(11::nat) \<noteq> sizeof_params_t example_target
   \<and> wy_module_write example_target example_held example_user 8192 11 =
       (0, example_held, [])
   \<and> wy_module_read example_target example_held example_user 12288 11 =
       (0, example_held, example_user)"
proof -
  have h: "(11::nat) \<noteq> sizeof_params_t example_target"
    by (simp add: sizeof_params_t_cases example_target_def)
  show ?thesis
    using h size_guard [OF h, of example_held example_user 8192]
      size_guard [OF h, of example_held example_user 12288]
    by simp
qed

subsection \<open>Facts about the concrete configuration\<close>

lemma upt12: "[0..<12] = [0,1,2,3,4,5,6,7,8,9,10,11::nat]"
  by (simp add: upt_rec)

lemma example_user_bytes: "user_bytes example_user 8192 12 = map Some example_bytes"
  by (simp add: user_bytes_def example_user_def example_bytes_def upt12)

lemma example_fields:
  "params_fields example_target example_bytes = \<lparr>cmd = 7, vaddr = 4096, len_field = 64\<rparr>"
  by (simp add: params_fields_def params_cmd_def load_uint_def field_bytes_def
      offsetof_cmd_def offsetof_vaddr_def offsetof_len_def align_up_def
      example_target_def example_bytes_def)

lemma example_sizeof: "sizeof_params_t example_target = 12"
  by (simp add: sizeof_params_t_cases example_target_def)

lemma example_accessible:
  "accessible example_user 8192 12" "accessible example_user 12288 12"
  by (simp_all add: accessible_def example_user_def upt12)

lemma example_params_ok: "params_ok example_target example_held"
  by (simp add: params_ok_def example_sizeof example_held_def example_statics_def)

subsection \<open>Write\<close>

text \<open>
  C6. A write of exactly \<open>sizeof(params_t)\<close> bytes returns that size. Whatever the stored
  \<open>cmd\<close> is, the \<open>switch\<close> takes its \<open>default\<close> branch, which logs one line and does
  nothing else. The write stores, byte for byte, what \<open>get_user\<close> delivered and changes
  no other static variable; when the whole buffer is accessible these are the caller's
  bytes, so the fields of the stored record are the fields of the input.
\<close>

theorem write_exact_length:
  "len = sizeof_params_t tg \<Longrightarrow>
     fst (wy_module_write tg s um buffer len) = int (sizeof_params_t tg)
     \<and> snd (snd (wy_module_write tg s um buffer len)) =
         [Printk KERN_INFO (''wy_module write default operation'' @ [CHR 0x0A]) []]
     \<and> (\<forall>c. write_switch c =
         [Printk KERN_INFO (''wy_module write default operation'' @ [CHR 0x0A]) []])
     \<and> (params_ok tg s \<longrightarrow>
         fst (snd (wy_module_write tg s um buffer len)) =
           s\<lparr>params := map (\<lambda>i. snd (get_user um (buffer + i))) [0..<len]\<rparr>)
     \<and> (params_ok tg s \<and> accessible um buffer len \<longrightarrow>
         map Some (params (fst (snd (wy_module_write tg s um buffer len)))) =
           user_bytes um buffer len)"
proof -
  assume len: "len = sizeof_params_t tg"
  have "params_ok tg s \<and> accessible um buffer len \<longrightarrow>
         map Some (params (fst (snd (wy_module_write tg s um buffer len)))) =
           user_bytes um buffer len"
    using len user_bytes_get_user [of um buffer len] by (simp add: write_result)
  moreover have "params_ok tg s \<longrightarrow>
         fst (snd (wy_module_write tg s um buffer len)) =
           s\<lparr>params := map (\<lambda>i. snd (get_user um (buffer + i))) [0..<len]\<rparr>"
    using len by (simp add: write_result)
  moreover have "\<forall>c. write_switch c =
         [Printk KERN_INFO (''wy_module write default operation'' @ [CHR 0x0A]) []]"
    by (simp add: write_switch_def)
  ultimately show ?thesis
    using len write_return [OF len, of s um buffer] by simp
qed

theorem write_exact_length_witness:
  "fst (wy_module_write example_target example_held example_user 8192 12) = 12
   \<and> snd (snd (wy_module_write example_target example_held example_user 8192 12)) =
       [Printk KERN_INFO (''wy_module write default operation'' @ [CHR 0x0A]) []]
   \<and> params (fst (snd (wy_module_write example_target example_held example_user 8192 12))) =
       example_bytes
   \<and> params_fields example_target
        (params (fst (snd (wy_module_write example_target example_held example_user 8192 12))))
       = \<lparr>cmd = 7, vaddr = 4096, len_field = 64\<rparr>"
proof -
  have h: "(12::nat) = sizeof_params_t example_target"
    by (simp add: example_sizeof)
  note w = write_exact_length [OF h, of example_held example_user 8192]
  have "map Some
          (params (fst (snd (wy_module_write example_target example_held example_user 8192 12))))
        = user_bytes example_user 8192 12"
    using w example_params_ok example_accessible(1) by blast
  then have stored:
      "params (fst (snd (wy_module_write example_target example_held example_user 8192 12)))
        = example_bytes"
    by (simp add: example_user_bytes)
  have "fst (wy_module_write example_target example_held example_user 8192 12) = 12"
    using w by (simp add: example_sizeof)
  moreover have
    "snd (snd (wy_module_write example_target example_held example_user 8192 12)) =
       [Printk KERN_INFO (''wy_module write default operation'' @ [CHR 0x0A]) []]"
    using w by blast
  ultimately show ?thesis
    using stored by (simp add: example_fields)
qed


subsection \<open>Write and read together\<close>

text \<open>
  C3. Round trip, for a length of exactly \<open>sizeof(params_t)\<close>. Writing the bytes of an
  accessible buffer and then reading into an accessible buffer leaves there the bytes
  that were written. The record in memory is the object \<open>params\<close>: reading it out and
  writing the result back restores every static variable, so the stored bytes and the
  fields read from them are the same as before.
\<close>

theorem write_read_roundtrip:
  assumes "len = sizeof_params_t tg" and "params_ok tg s"
  shows "(accessible um src len \<and> accessible um dst len \<longrightarrow>
           (case wy_module_write tg s um src len of (r1, s1, ks) \<Rightarrow>
            case wy_module_read tg s1 um dst len of (r2, s2, um2) \<Rightarrow>
              r1 = int len \<and> r2 = int len \<and>
              user_bytes um2 dst len = user_bytes um src len))
       \<and> (accessible um dst len \<longrightarrow>
           (case wy_module_read tg s um dst len of (r1, s1, um1) \<Rightarrow>
            case wy_module_write tg s1 um1 dst len of (r2, s2, ks) \<Rightarrow>
              r1 = int len \<and> r2 = int len \<and> s2 = s \<and>
              params_fields tg (params s2) = params_fields tg (params s)))"
proof (intro conjI impI)
  assume acc: "accessible um src len \<and> accessible um dst len"
  let ?bs = "map (\<lambda>i. snd (get_user um (src + i))) [0..<len]"
  have "user_bytes (fst (read_loop ?bs len um dst 0 0)) dst len =
          map (\<lambda>i. Some (?bs ! i)) [0..<len]"
    using acc by (simp only: read_bytes)
  also have "\<dots> = map Some ?bs"
    by (intro nth_equalityI) simp_all
  also have "\<dots> = user_bytes um src len"
    using acc by (simp only: user_bytes_get_user)
  finally show "case wy_module_write tg s um src len of (r1, s1, ks) \<Rightarrow>
          case wy_module_read tg s1 um dst len of (r2, s2, um2) \<Rightarrow>
            r1 = int len \<and> r2 = int len \<and>
            user_bytes um2 dst len = user_bytes um src len"
    using assms by (simp add: write_result read_result)
next
  assume acc: "accessible um dst len"
  let ?um1 = "fst (read_loop (params s) len um dst 0 0)"
  have len: "length (params s) = len"
    using assms by (simp add: params_ok_def)
  have "map (\<lambda>i. snd (get_user ?um1 (dst + i))) [0..<len] = params s"
    using acc len
    by (intro nth_equalityI) (simp_all add: get_user_def read_loop_at accessible_iff)
  then show "case wy_module_read tg s um dst len of (r1, s1, um1) \<Rightarrow>
          case wy_module_write tg s1 um1 dst len of (r2, s2, ks) \<Rightarrow>
            r1 = int len \<and> r2 = int len \<and> s2 = s \<and>
            params_fields tg (params s2) = params_fields tg (params s)"
    using assms by (simp add: write_result read_result)
qed

theorem write_read_roundtrip_witness:
  "(case wy_module_write example_target example_held example_user 8192 12 of (r1, s1, ks) \<Rightarrow>
    case wy_module_read example_target s1 example_user 12288 12 of (r2, s2, um2) \<Rightarrow>
      r1 = 12 \<and> r2 = 12 \<and> user_bytes um2 12288 12 = map Some example_bytes)
   \<and> (case wy_module_read example_target example_held example_user 12288 12 of (r1, s1, um1) \<Rightarrow>
      case wy_module_write example_target s1 um1 12288 12 of (r2, s2, ks) \<Rightarrow>
        r1 = 12 \<and> r2 = 12 \<and> s2 = example_held)"
proof -
  have h: "(12::nat) = sizeof_params_t example_target"
    by (simp add: example_sizeof)
  note r = write_read_roundtrip [OF h example_params_ok]
  have a: "accessible example_user 8192 12 \<and> accessible example_user 12288 12"
    by (simp add: example_accessible)
  show ?thesis
    using r [of example_user 8192 12288] r [of example_user 12288 12288] a
    by (simp add: example_user_bytes split: prod.splits)
qed

subsection \<open>Read\<close>

text \<open>
  C10. A read of any length changes no static variable: neither the stored record nor
  the open count nor the handles. Two reads in a row of exactly \<open>sizeof(params_t)\<close> bytes
  into accessible buffers both return that size and deliver the same bytes, those of the
  stored record.
\<close>

theorem read_preserves_state:
  "fst (snd (wy_module_read tg s um buffer len)) = s
   \<and> (len = sizeof_params_t tg \<and> params_ok tg s \<and>
        accessible um b1 len \<and> accessible um b2 len \<longrightarrow>
        (case wy_module_read tg s um b1 len of (r1, s1, um1) \<Rightarrow>
         case wy_module_read tg s1 um1 b2 len of (r2, s2, um2) \<Rightarrow>
           r1 = int len \<and> r2 = int len \<and> s1 = s \<and> s2 = s \<and>
           user_bytes um1 b1 len = map Some (params s) \<and>
           user_bytes um2 b2 len = user_bytes um1 b1 len))"
proof (intro conjI impI)
  show "fst (snd (wy_module_read tg s um buffer len)) = s"
    by (simp add: wy_module_read_def split_beta)
next
  assume h: "len = sizeof_params_t tg \<and> params_ok tg s \<and>
        accessible um b1 len \<and> accessible um b2 len"
  let ?um1 = "fst (read_loop (params s) len um b1 0 0)"
  have len: "length (params s) = len"
    using h by (simp add: params_ok_def)
  have whole: "map (\<lambda>i. Some (params s ! i)) [0..<len] = map Some (params s)"
    using len by (intro nth_equalityI) simp_all
  from h have a1: "accessible um b1 len" and a2: "accessible um b2 len"
    by blast+
  have first: "user_bytes ?um1 b1 len = map Some (params s)"
    using read_bytes [OF a1, of "params s"] whole by simp
  have "accessible ?um1 b2 len"
    using a2 by (simp only: read_loop_accessible)
  then have second:
      "user_bytes (fst (read_loop (params s) len ?um1 b2 0 0)) b2 len = map Some (params s)"
    using read_bytes [of ?um1 b2 len "params s"] whole by simp
  show "case wy_module_read tg s um b1 len of (r1, s1, um1) \<Rightarrow>
         case wy_module_read tg s1 um1 b2 len of (r2, s2, um2) \<Rightarrow>
           r1 = int len \<and> r2 = int len \<and> s1 = s \<and> s2 = s \<and>
           user_bytes um1 b1 len = map Some (params s) \<and>
           user_bytes um2 b2 len = user_bytes um1 b1 len"
    using h first second by (simp add: read_result)
qed

theorem read_preserves_state_witness:
  "fst (snd (wy_module_read example_target example_held example_user 12288 12)) = example_held
   \<and> (case wy_module_read example_target example_held example_user 8192 12 of
         (r1, s1, um1) \<Rightarrow>
       case wy_module_read example_target s1 um1 12288 12 of (r2, s2, um2) \<Rightarrow>
         r1 = 12 \<and> r2 = 12 \<and> s2 = example_held \<and>
         user_bytes um2 12288 12 = user_bytes um1 8192 12)"
proof -
  have h: "12 = sizeof_params_t example_target \<and> params_ok example_target example_held \<and>
        accessible example_user 8192 12 \<and> accessible example_user 12288 12"
    by (simp add: example_sizeof example_params_ok example_accessible)
  show ?thesis
    using h read_preserves_state [of example_target example_held example_user 12288 12 8192 12288]
      read_preserves_state [of example_target example_held example_user 8192 12 8192 12288]
    by (simp split: prod.splits)
qed

subsection \<open>The open count over sequences of file operations\<close>

lemma write_count:
  "wy_module_open_count (fst (snd (wy_module_write tg s um buffer len))) =
     wy_module_open_count s"
  by (simp add: wy_module_write_def split_beta)

lemma read_statics: "fst (snd (wy_module_read tg s um buffer len)) = s"
  by (simp add: wy_module_read_def split_beta)

lemma step_count:
  assumes "wy_module_open_count s \<in> {0, 1}"
  shows "wy_module_open_count (fst (step tg (s, um) x)) \<in> {0, 1}"
proof (cases x)
  case Open
  with assms show ?thesis by (auto simp: wy_module_open_def)
next
  case Release
  with assms show ?thesis by (auto simp: wy_module_release_def)
next
  case (Read buffer len)
  with assms show ?thesis
    using read_statics [of tg s um buffer len] by (simp add: split_beta)
next
  case (Write buffer len)
  with assms show ?thesis by (simp add: write_count)
qed

lemma run_count:
  "wy_module_open_count (fst c) \<in> {0, 1} \<Longrightarrow>
   wy_module_open_count (fst (run tg c ops)) \<in> {0, 1}"
proof (induction ops arbitrary: c)
  case Nil
  then show ?case by (simp add: run_def)
next
  case (Cons x ops)
  obtain s um where c: "c = (s, um)" by (cases c)
  have "wy_module_open_count (fst (step tg c x)) \<in> {0, 1}"
    using Cons.prems step_count [of s tg um x] by (simp add: c)
  then have "wy_module_open_count (fst (run tg (step tg c x) ops)) \<in> {0, 1}"
    by (rule Cons.IH)
  then show ?case by (simp add: run_def)
qed

text \<open>
  C5. After any sequence of open, release, read and write calls from the initial state
  the open count is 0 or 1. A read and a write leave the count as it is, in every state:
  only open and release assign it.
\<close>

theorem holder_count_invariant:
  "wy_module_open_count (fst (run tg (initial tg, um) ops)) \<in> {0, 1}
   \<and> wy_module_open_count (fst (step tg (s, um1) (Read buffer len))) = wy_module_open_count s
   \<and> wy_module_open_count (fst (step tg (s, um1) (Write buffer len))) = wy_module_open_count s"
proof -
  have "wy_module_open_count (fst (run tg (initial tg, um) ops)) \<in> {0, 1}"
    by (rule run_count) (simp add: initial_def)
  moreover have
    "wy_module_open_count (fst (step tg (s, um1) (Read buffer len))) = wy_module_open_count s"
    using read_statics [of tg s um1 buffer len] by (simp add: split_beta)
  ultimately show ?thesis by (simp add: write_count)
qed

theorem holder_count_invariant_witness:
  "wy_module_open_count
     (fst (run example_target (initial example_target, example_user)
        [Open, Open, Write 8192 12, Read 12288 12, Release, Release, Open])) \<in> {0, 1}
   \<and> wy_module_open_count (fst (step example_target (example_held, example_user) (Read 12288 12))) = 1
   \<and> wy_module_open_count (fst (step example_target (example_held, example_user) (Write 8192 12))) = 1"
  using holder_count_invariant [of example_target example_user
      "[Open, Open, Write 8192 12, Read 12288 12, Release, Release, Open]"
      example_held example_user 12288 12]
    holder_count_invariant [of example_target example_user "[]" example_held example_user 8192 12]
  by (simp add: example_held_def example_statics_def)

subsection \<open>Loading: roll-back when a step fails\<close>

lemma long_to_int_error: "IS_ERR p \<Longrightarrow> long_to_int p = p"
  by (simp add: IS_ERR_def MAX_ERRNO_def long_to_int_def)

lemma example_loaded:
  "fst (wy_module_init example_answers (initial example_target)) = 0"
  "fst (snd (wy_module_init example_answers (initial example_target))) = example_statics"
  "fst (snd (wy_module_open example_statics)) = example_held"
  by (simp_all add: wy_module_init_def wy_module_open_def Let_def example_answers_def
      initial_def example_statics_def example_held_def example_sizeof IS_ERR_def MAX_ERRNO_def)

text \<open>
  C7. When \<open>register_chrdev\<close> succeeds and \<open>class_create\<close> returns an error pointer,
  \<open>wy_module_init\<close> unregisters the major number it was given and returns the error
  code carried by the class pointer. \<open>unregister_chrdev\<close> returns nothing, so no error of
  the roll-back can reach the return value. Nothing remains held.
\<close>

theorem class_failure_rollback:
  assumes "0 \<le> register_chrdev_ret k" and "IS_ERR (class_create_ret k)"
  shows "case wy_module_init k s of (ret, s1, tr) \<Rightarrow>
           ret = class_create_ret k \<and>
           registry_calls tr =
             [Register_chrdev 0 ''wy_module'' (register_chrdev_ret k),
              Class_create CLASS_NAME (class_create_ret k),
              Unregister_chrdev (register_chrdev_ret k) DEVICE_NAME] \<and>
           (\<forall>r. held r tr = 0)"
  using assms
  by (simp add: wy_module_init_def Let_def long_to_int_error PTR_ERR_def registry_calls_def
      held_def times_acquired_def times_released_def)

theorem class_failure_rollback_witness:
  "0 \<le> register_chrdev_ret example_class_fails \<and> IS_ERR (class_create_ret example_class_fails)
   \<and> (case wy_module_init example_class_fails (initial example_target) of (ret, s1, tr) \<Rightarrow>
         ret = - 12 \<and>
         registry_calls tr =
           [Register_chrdev 0 ''wy_module'' 240, Class_create ''chardrv'' (- 12),
            Unregister_chrdev 240 ''wy_module''] \<and>
         held (Chrdev 240) tr = 0)"
proof -
  have h1: "0 \<le> register_chrdev_ret example_class_fails"
    by (simp add: example_class_fails_def example_answers_def)
  have h2: "IS_ERR (class_create_ret example_class_fails)"
    by (simp add: example_class_fails_def example_answers_def IS_ERR_def MAX_ERRNO_def)
  show ?thesis
    using h1 h2 class_failure_rollback [OF h1 h2, of "initial example_target"]
    by (simp add: example_class_fails_def example_answers_def CLASS_NAME_def DEVICE_NAME_def
        split: prod.splits)
qed

text \<open>
  C8. When registration and class creation succeed and \<open>device_create\<close> returns an error
  pointer, \<open>wy_module_init\<close> first destroys the class, then unregisters the major number,
  and returns the error code carried by the device pointer. Nothing remains held.
\<close>

theorem device_failure_rollback:
  assumes "0 \<le> register_chrdev_ret k" and "\<not> IS_ERR (class_create_ret k)"
    and "IS_ERR (device_create_ret k)"
  shows "case wy_module_init k s of (ret, s1, tr) \<Rightarrow>
           ret = device_create_ret k \<and>
           registry_calls tr =
             [Register_chrdev 0 ''wy_module'' (register_chrdev_ret k),
              Class_create CLASS_NAME (class_create_ret k),
              Device_create (class_create_ret k) (MKDEV (register_chrdev_ret k) 0) DEVICE_NAME
                (device_create_ret k),
              Class_destroy (class_create_ret k),
              Unregister_chrdev (register_chrdev_ret k) DEVICE_NAME] \<and>
           (\<forall>r. held r tr = 0)"
  using assms
  by (simp add: wy_module_init_def Let_def long_to_int_error PTR_ERR_def registry_calls_def
      held_def times_acquired_def times_released_def)

theorem device_failure_rollback_witness:
  "0 \<le> register_chrdev_ret example_device_fails
   \<and> \<not> IS_ERR (class_create_ret example_device_fails)
   \<and> IS_ERR (device_create_ret example_device_fails)
   \<and> (case wy_module_init example_device_fails (initial example_target) of (ret, s1, tr) \<Rightarrow>
         ret = - 19 \<and>
         registry_calls tr =
           [Register_chrdev 0 ''wy_module'' 240, Class_create ''chardrv'' 65536,
            Device_create 65536 (MKDEV 240 0) ''wy_module'' (- 19),
            Class_destroy 65536, Unregister_chrdev 240 ''wy_module''] \<and>
         held (Class 65536) tr = 0 \<and> held (Chrdev 240) tr = 0)"
proof -
  have h1: "0 \<le> register_chrdev_ret example_device_fails"
    by (simp add: example_device_fails_def example_answers_def)
  have h2: "\<not> IS_ERR (class_create_ret example_device_fails)"
    by (simp add: example_device_fails_def example_answers_def IS_ERR_def MAX_ERRNO_def)
  have h3: "IS_ERR (device_create_ret example_device_fails)"
    by (simp add: example_device_fails_def example_answers_def IS_ERR_def MAX_ERRNO_def)
  show ?thesis
    using h1 h2 h3 device_failure_rollback [OF h1 h2 h3, of "initial example_target"]
    by (simp add: example_device_fails_def example_answers_def CLASS_NAME_def DEVICE_NAME_def
        split: prod.splits)
qed

subsection \<open>Unloading\<close>

text \<open>
  C9. \<open>wy_module_exit\<close> makes the same four registry calls in every state, whatever the
  open count: \<open>device_destroy\<close>, \<open>class_unregister\<close>, \<open>class_destroy\<close>,
  \<open>unregister_chrdev\<close>. The order of the claim holds, but the class is given back twice,
  once by \<open>class_unregister\<close> and once more by \<open>class_destroy\<close>, where the roll-back of
  \<open>wy_module_init\<close> gives it back with \<open>class_destroy\<close> alone.
\<close>

theorem exit_releases_class_twice:
  assumes "wy_module_class s \<noteq> 0" and "\<not> IS_ERR (wy_module_class s)"
  shows "case wy_module_exit s of (s1, tr) \<Rightarrow>
           registry_calls tr =
             [Device_destroy (wy_module_class s) (MKDEV (wy_module_major_num s) 0),
              Class_unregister (wy_module_class s),
              Class_destroy (wy_module_class s),
              Unregister_chrdev (wy_module_major_num s) DEVICE_NAME] \<and>
           times_released (Class (wy_module_class s)) tr = 2"
  using assms
  by (simp add: wy_module_exit_def registry_calls_def times_released_def)


theorem exit_releases_class_twice_witness:
  "wy_module_class example_held \<noteq> 0 \<and> \<not> IS_ERR (wy_module_class example_held)
   \<and> (case wy_module_exit example_held of (s1, tr) \<Rightarrow>
         registry_calls tr =
           [Device_destroy 65536 (MKDEV 240 0), Class_unregister 65536, Class_destroy 65536,
            Unregister_chrdev 240 ''wy_module''] \<and>
         times_released (Class 65536) tr = 2)"
proof -
  have h1: "wy_module_class example_held \<noteq> 0"
    by (simp add: example_held_def example_statics_def)
  have h2: "\<not> IS_ERR (wy_module_class example_held)"
    by (simp add: example_held_def example_statics_def IS_ERR_def MAX_ERRNO_def)
  show ?thesis
    using h1 h2 exit_releases_class_twice [OF h1 h2]
    by (simp add: example_held_def example_statics_def DEVICE_NAME_def split: prod.splits)
qed

text \<open>Loading with every call succeeding and then unloading: the class is held \<open>-1\<close> times.\<close>

lemma example_load_unload:
  "held (Class 65536)
     (snd (snd (wy_module_init example_answers (initial example_target))) @
      snd (wy_module_exit example_statics)) = - 1"
  by (simp add: wy_module_init_def wy_module_exit_def Let_def example_answers_def
      example_statics_def held_def times_acquired_def times_released_def
      IS_ERR_def MAX_ERRNO_def)

end
